theory Spec2Isabelle
  imports Complex_Main "HOL-Library.Word"
begin

unbundle bit_operations_syntax

section \<open>The client SDK (sdk/src/types.ts, sdk/src/client.ts)\<close>

subsection \<open>Data\<close>

type_synonym byte = "8 word"
type_synonym Buffer = "byte list"

text \<open>A public key is its base58 text; a JavaScript number is a rational here (the
  numbers the client compares are UI token amounts), and a bigint is an \<open>int\<close>.\<close>

type_synonym PublicKey = string

text \<open>The enum of types.ts, lines 26-31, with its numeric values.\<close>

datatype QrngInstructionType =
  INITIALIZE_PROGRAM | GENERATE_RANDOM_U64 | GENERATE_RANDOM_DOUBLE | GENERATE_RANDOM_BOOLEAN

fun enum_value :: "QrngInstructionType \<Rightarrow> nat" where
  "enum_value INITIALIZE_PROGRAM = 0"
| "enum_value GENERATE_RANDOM_U64 = 1"
| "enum_value GENERATE_RANDOM_DOUBLE = 2"
| "enum_value GENERATE_RANDOM_BOOLEAN = 3"

text \<open>What a JavaScript call can throw: the SDK's own \<open>QrngError\<close> with its message, or
  any other error (of a library or of the runtime) with the text that
  \<open>error.message || error\<close> prints.\<close>

datatype js_error = QrngError string | Error string

record AccountMeta =
  pubkey :: PublicKey
  isSigner :: bool
  isWritable :: bool

record TransactionInstruction =
  keys :: "AccountMeta list"
  ix_programId :: PublicKey
  data :: Buffer

type_synonym Transaction = "TransactionInstruction list"

record ReturnData =
  rd_data :: "string option"

record Meta =
  returnData :: "ReturnData option"

record TxInfo =
  meta :: "Meta option"

record QrngClient =
  programId :: PublicKey
  tokenMint :: PublicKey
  treasuryAddress :: PublicKey
  configPda :: PublicKey

text \<open>Everything the client awaits or calls outside this repository: the two libraries
  (@solana/web3.js, @solana/spl-token) and the runtime. Each call answers with a value or
  throws. \<open>getOrCreateAssociatedTokenAccount\<close> takes payer, mint, owner and
  allowOwnerOffCurve and answers with the token account's address;
  \<open>getTokenAccountBalance\<close> answers with \<open>value.uiAmount\<close>, which may be null.\<close>

record Runtime =
  getOrCreateAssociatedTokenAccount ::
    "PublicKey \<Rightarrow> PublicKey \<Rightarrow> PublicKey \<Rightarrow> bool \<Rightarrow> js_error + PublicKey"
  getTokenAccountBalance :: "PublicKey \<Rightarrow> js_error + rat option"
  sendAndConfirmTransaction :: "Transaction \<Rightarrow> PublicKey list \<Rightarrow> js_error + string"
  getTransaction :: "string \<Rightarrow> js_error + TxInfo option"
  Buffer_from_base64 :: "string \<Rightarrow> Buffer"
  number_toString :: "rat \<Rightarrow> string"

definition TOKEN_PROGRAM_ID :: PublicKey where
  "TOKEN_PROGRAM_ID = ''TokenkegQfeZyiNwAJbNbGKPFXCWuBvf9Ss623VQ5DA''"

definition SYSVAR_CLOCK_PUBKEY :: PublicKey where
  "SYSVAR_CLOCK_PUBKEY = ''SysvarC1ock11111111111111111111111111111111''"

subsection \<open>Buffers\<close>

text \<open>\<open>Buffer.from(array)\<close>: every entry is taken modulo 256.\<close>

definition Buffer_from :: "nat list \<Rightarrow> Buffer" where
  "Buffer_from xs = map of_nat xs"

text \<open>Node's \<open>buf.readBigUInt64LE(offset)\<close>: a RangeError when \<open>buf[offset]\<close> or
  \<open>buf[offset + 7]\<close> is undefined, else the low and the high 32 bits put together.\<close>

definition readBigUInt64LE :: "Buffer \<Rightarrow> nat \<Rightarrow> js_error + int" where
  "readBigUInt64LE buf offset =
     (if offset + 7 < length buf then
        (let lo = uint (buf ! offset) +
                  uint (buf ! (offset + 1)) * 2 ^ 8 +
                  uint (buf ! (offset + 2)) * 2 ^ 16 +
                  uint (buf ! (offset + 3)) * 2 ^ 24;
             hi = uint (buf ! (offset + 4)) +
                  uint (buf ! (offset + 5)) * 2 ^ 8 +
                  uint (buf ! (offset + 6)) * 2 ^ 16 +
                  uint (buf ! (offset + 7)) * 2 ^ 24
         in Inr (lo + hi * 2 ^ 32))
      else Inl (Error ''RangeError''))"

text \<open>Node's \<open>buf.readDoubleLE(offset)\<close>. The double read is kept as its IEEE-754 bit
  pattern, the eight bytes put together little-endian; the same RangeError out of range.\<close>

definition readDoubleLE :: "Buffer \<Rightarrow> nat \<Rightarrow> js_error + 64 word" where
  "readDoubleLE buf offset =
     (case readBigUInt64LE buf offset of
        Inl e \<Rightarrow> Inl e
      | Inr bits \<Rightarrow> Inr (word_of_int bits))"

subsection \<open>generateRandom (client.ts, lines 166-253)\<close>

text \<open>\<open>x || 0\<close> on a number that may be null.\<close>

fun or_zero :: "rat option \<Rightarrow> rat" where
  "or_zero None = 0"
| "or_zero (Some v) = v"

text \<open>The catch block, lines 245-252: a QrngError passes, anything else is wrapped.\<close>

fun wrap_error :: "js_error \<Rightarrow> js_error" where
  "wrap_error (QrngError m) = QrngError m"
| "wrap_error (Error m) = QrngError (''Error generating random number: '' @ m)"

text \<open>Lines 201-219: the instruction data and the instruction added to the transaction.\<close>

definition instructionData :: "QrngInstructionType \<Rightarrow> Buffer" where
  "instructionData instructionType = Buffer_from [enum_value instructionType]"

definition main_instruction ::
  "QrngClient \<Rightarrow> PublicKey \<Rightarrow> PublicKey \<Rightarrow> PublicKey \<Rightarrow> QrngInstructionType
     \<Rightarrow> TransactionInstruction" where
  "main_instruction c walletPublicKey userTokenAccount treasuryTokenAccount instructionType =
     \<lparr> keys = [
         \<lparr> pubkey = walletPublicKey, isSigner = True, isWritable = True \<rparr>,
         \<lparr> pubkey = userTokenAccount, isSigner = False, isWritable = True \<rparr>,
         \<lparr> pubkey = treasuryTokenAccount, isSigner = False, isWritable = True \<rparr>,
         \<lparr> pubkey = TOKEN_PROGRAM_ID, isSigner = False, isWritable = False \<rparr>,
         \<lparr> pubkey = configPda c, isSigner = False, isWritable = False \<rparr>,
         \<lparr> pubkey = SYSVAR_CLOCK_PUBKEY, isSigner = False, isWritable = False \<rparr> ],
       ix_programId = programId c,
       data = instructionData instructionType \<rparr>"

text \<open>Lines 236-244: the return data of the confirmed transaction. A null transaction,
  a missing \<open>meta\<close>, \<open>returnData\<close> or \<open>data\<close>, and the empty string are all falsy.\<close>

definition extract_return_data :: "Runtime \<Rightarrow> TxInfo option \<Rightarrow> js_error + Buffer" where
  "extract_return_data rt txInfo =
     (case txInfo of
        None \<Rightarrow> Inl (QrngError ''No return data found in transaction'')
      | Some info \<Rightarrow>
        (case meta info of
           None \<Rightarrow> Inl (QrngError ''No return data found in transaction'')
         | Some m \<Rightarrow>
           (case returnData m of
              None \<Rightarrow> Inl (QrngError ''No return data found in transaction'')
            | Some rd \<Rightarrow>
              (case rd_data rd of
                 None \<Rightarrow> Inl (QrngError ''No return data found in transaction'')
               | Some d \<Rightarrow>
                 if d = [] then Inl (QrngError ''No return data found in transaction'')
                 else Inr (Buffer_from_base64 rt d)))))"

text \<open>The method returns the transactions it has submitted, in order, beside its result:
  the value returned or the error thrown.\<close>

definition generateRandom ::
  "Runtime \<Rightarrow> QrngClient \<Rightarrow> PublicKey \<Rightarrow> QrngInstructionType
     \<Rightarrow> Transaction list \<times> (js_error + Buffer)" where
  "generateRandom rt c walletPublicKey instructionType =
     (case getOrCreateAssociatedTokenAccount rt walletPublicKey (tokenMint c) walletPublicKey False of
        Inl e \<Rightarrow> ([], Inl (wrap_error e))
      | Inr userTokenAccount \<Rightarrow>
     (case getOrCreateAssociatedTokenAccount rt walletPublicKey (tokenMint c) (treasuryAddress c) True of
        Inl e \<Rightarrow> ([], Inl (wrap_error e))
      | Inr treasuryTokenAccount \<Rightarrow>
     (case getTokenAccountBalance rt userTokenAccount of
        Inl e \<Rightarrow> ([], Inl (wrap_error e))
      | Inr uiAmount \<Rightarrow>
        (let balance = or_zero uiAmount in
         if balance < 1 then
           ([], Inl (QrngError (''Insufficient TSOTCHKE tokens. You have '' @
                                 number_toString rt balance @ '' but need at least 1.0.'')))
         else
           (let transaction =
                  [main_instruction c walletPublicKey userTokenAccount treasuryTokenAccount
                     instructionType]
            in case sendAndConfirmTransaction rt transaction [walletPublicKey] of
                 Inl e \<Rightarrow> ([transaction], Inl (wrap_error e))
               | Inr signature \<Rightarrow>
                 (case getTransaction rt signature of
                    Inl e \<Rightarrow> ([transaction], Inl (wrap_error e))
                  | Inr txInfo \<Rightarrow>
                    (case extract_return_data rt txInfo of
                       Inl e \<Rightarrow> ([transaction], Inl (wrap_error e))
                     | Inr buf \<Rightarrow> ([transaction], Inr buf))))))))"

subsection \<open>The three public generators (client.ts, lines 80-129)\<close>

text \<open>What each method does with the buffer that \<open>generateRandom\<close> resolved to.\<close>

definition generateRandomU64_result :: "Buffer \<Rightarrow> js_error + int" where
  "generateRandomU64_result result =
     (if length result < 8 then Inl (QrngError ''Invalid return data from QRNG service'')
      else readBigUInt64LE result 0)"

definition generateRandomDouble_result :: "Buffer \<Rightarrow> js_error + 64 word" where
  "generateRandomDouble_result result =
     (if length result < 8 then Inl (QrngError ''Invalid return data from QRNG service'')
      else readDoubleLE result 0)"

definition generateRandomBoolean_result :: "Buffer \<Rightarrow> js_error + bool" where
  "generateRandomBoolean_result result =
     (if length result < 1 then Inl (QrngError ''Invalid return data from QRNG service'')
      else Inr (result ! 0 = 1))"

definition generateRandomU64 ::
  "Runtime \<Rightarrow> QrngClient \<Rightarrow> PublicKey \<Rightarrow> Transaction list \<times> (js_error + int)" where
  "generateRandomU64 rt c wallet =
     (case generateRandom rt c wallet GENERATE_RANDOM_U64 of
        (txs, Inl e) \<Rightarrow> (txs, Inl e)
      | (txs, Inr result) \<Rightarrow> (txs, generateRandomU64_result result))"

definition generateRandomDouble ::
  "Runtime \<Rightarrow> QrngClient \<Rightarrow> PublicKey \<Rightarrow> Transaction list \<times> (js_error + 64 word)" where
  "generateRandomDouble rt c wallet =
     (case generateRandom rt c wallet GENERATE_RANDOM_DOUBLE of
        (txs, Inl e) \<Rightarrow> (txs, Inl e)
      | (txs, Inr result) \<Rightarrow> (txs, generateRandomDouble_result result))"

definition generateRandomBoolean ::
  "Runtime \<Rightarrow> QrngClient \<Rightarrow> PublicKey \<Rightarrow> Transaction list \<times> (js_error + bool)" where
  "generateRandomBoolean rt c wallet =
     (case generateRandom rt c wallet GENERATE_RANDOM_BOOLEAN of
        (txs, Inl e) \<Rightarrow> (txs, Inl e)
      | (txs, Inr result) \<Rightarrow> (txs, generateRandomBoolean_result result))"

subsection \<open>getTokenBalance (client.ts, lines 137-157)\<close>

text \<open>The body of the try block, then the catch block that answers 0 to every error.\<close>

definition getTokenBalance_try :: "Runtime \<Rightarrow> QrngClient \<Rightarrow> PublicKey \<Rightarrow> js_error + rat" where
  "getTokenBalance_try rt c walletPublicKey =
     (case getOrCreateAssociatedTokenAccount rt walletPublicKey (tokenMint c) walletPublicKey True of
        Inl e \<Rightarrow> Inl e
      | Inr tokenAccount \<Rightarrow>
        (case getTokenAccountBalance rt tokenAccount of
           Inl e \<Rightarrow> Inl e
         | Inr uiAmount \<Rightarrow> Inr (or_zero uiAmount)))"

definition getTokenBalance :: "Runtime \<Rightarrow> QrngClient \<Rightarrow> PublicKey \<Rightarrow> js_error + rat" where
  "getTokenBalance rt c walletPublicKey =
     (case getTokenBalance_try rt c walletPublicKey of
        Inl e \<Rightarrow> Inr 0
      | Inr v \<Rightarrow> Inr v)"

subsection \<open>The constructor (client.ts, lines 60-72)\<close>

record QrngClientOptions =
  opt_programId :: "PublicKey option"
  opt_tokenMint :: "PublicKey option"
  opt_treasuryAddress :: "PublicKey option"

definition DEFAULT_PROGRAM_ID :: PublicKey where
  "DEFAULT_PROGRAM_ID = ''F7E268Uek6YJvYCNaeamnxLy1umzPPTfrK2TiATxffQg''"

definition DEFAULT_TOKEN_MINT :: PublicKey where
  "DEFAULT_TOKEN_MINT = ''4mbdysBik3jmzD7mt6FGPDsMxnYcxExSQRFjPucdpump''"

definition DEFAULT_TREASURY_ADDRESS :: PublicKey where
  "DEFAULT_TREASURY_ADDRESS = ''3vuKcjqows8T19z7amN2XMkSdVcicqBuf5vVa8ZjaVfc''"

text \<open>\<open>options.x || DEFAULT\<close>, and the config address derived from the seed and the
  program id. \<open>PublicKey.findProgramAddressSync\<close> belongs to @solana/web3.js and is a
  parameter.\<close>

fun or_default :: "PublicKey option \<Rightarrow> PublicKey \<Rightarrow> PublicKey" where
  "or_default None d = d"
| "or_default (Some k) d = k"

definition new_QrngClient ::
  "(string \<Rightarrow> PublicKey \<Rightarrow> PublicKey) \<Rightarrow> QrngClientOptions \<Rightarrow> QrngClient" where
  "new_QrngClient findProgramAddressSync options =
     (let pid = or_default (opt_programId options) DEFAULT_PROGRAM_ID
      in \<lparr> programId = pid,
           tokenMint = or_default (opt_tokenMint options) DEFAULT_TOKEN_MINT,
           treasuryAddress = or_default (opt_treasuryAddress options) DEFAULT_TREASURY_ADDRESS,
           configPda = findProgramAddressSync ''token_qrng_config'' pid \<rparr>)"

section \<open>The on-chain program\<close>

text \<open>Modelled from the spec: the on-chain program (ProgramDispatcher, RequestLedger and
  OutputFormatter of sections 3, 4, 6 and 7) is missing from the sources, which hold its
  client and its documentation only. The definitions of this section follow the spec's
  words. What the spec leaves open is a parameter: the addresses the program knows, the
  Config values that INITIALIZE_PROGRAM writes, the scaling of an EntropyWord to a double
  and the designated bit of the boolean. The EntropyMixer's result comes with the
  invocation: one EntropyWord, or nothing when an entropy source is unavailable.\<close>

record Config =
  treasury_token_account :: PublicKey
  token_mint :: PublicKey
  price_per_request :: nat

record TokenAccount =
  mint :: PublicKey
  amount :: nat

record ChainState =
  config :: "Config option"
  token_accounts :: "PublicKey \<rightharpoonup> TokenAccount"

record Program =
  config_address :: PublicKey
  initial_config :: Config
  double_of_entropy :: "64 word \<Rightarrow> 64 word"
  designated_bit :: nat

record Invocation =
  inv_data :: Buffer
  inv_accounts :: "AccountMeta list"
  inv_entropy :: "64 word option"

datatype ProgramError =
  UnknownTag | BadAccounts | NotInitialized | AccountMismatch | InsufficientBalance
  | AlreadyInitialized | EntropyUnavailable

text \<open>Modelled from the spec: the decoding of the instruction tag (section 6: the payload
  is the single tag byte, values 0 to 3; anything else is an unknown tag).\<close>

definition decode_tag :: "Buffer \<Rightarrow> QrngInstructionType option" where
  "decode_tag payload =
     (case payload of
        [b] \<Rightarrow>
          if b = 0 then Some INITIALIZE_PROGRAM
          else if b = 1 then Some GENERATE_RANDOM_U64
          else if b = 2 then Some GENERATE_RANDOM_DOUBLE
          else if b = 3 then Some GENERATE_RANDOM_BOOLEAN
          else None
      | _ \<Rightarrow> None)"

text \<open>Modelled from the spec: the OutputFormatter (section 4.2). A u64 goes out as the raw
  EntropyWord in eight bytes, little-endian; the double as the eight bytes of the scaled
  word; the boolean as one byte holding the designated bit.\<close>

definition u64_to_le_bytes :: "64 word \<Rightarrow> Buffer" where
  "u64_to_le_bytes w = map (\<lambda>i. ucast (drop_bit (8 * i) w)) [0..<8]"

fun format_output :: "Program \<Rightarrow> QrngInstructionType \<Rightarrow> 64 word \<Rightarrow> Buffer option" where
  "format_output P INITIALIZE_PROGRAM w = None"
| "format_output P GENERATE_RANDOM_U64 w = Some (u64_to_le_bytes w)"
| "format_output P GENERATE_RANDOM_DOUBLE w = Some (u64_to_le_bytes (double_of_entropy P w))"
| "format_output P GENERATE_RANDOM_BOOLEAN w =
     Some [if bit w (designated_bit P) then 1 else 0]"

text \<open>Modelled from the spec: the RequestLedger (section 4.3). The treasury must be the one
  of Config, both token accounts must hold the accepted mint, and the requester must hold
  the price. The ledger moves exactly the price from the requester to the treasury and a
  generation is never free (section 3): a requester token account that is the treasury's
  own, from which nothing could move, is refused as an account mismatch.\<close>

definition debit_and_credit ::
  "ChainState \<Rightarrow> Config \<Rightarrow> PublicKey \<Rightarrow> PublicKey \<Rightarrow> ProgramError + ChainState" where
  "debit_and_credit st cfg requester_token treasury_token =
     (if treasury_token \<noteq> treasury_token_account cfg then Inl AccountMismatch
      else if requester_token = treasury_token then Inl AccountMismatch
      else case token_accounts st requester_token of
        None \<Rightarrow> Inl AccountMismatch
      | Some a \<Rightarrow>
          if mint a \<noteq> token_mint cfg then Inl AccountMismatch
          else if amount a < price_per_request cfg then Inl InsufficientBalance
          else
            (let debited = (token_accounts st)
                   (requester_token \<mapsto> a\<lparr>amount := amount a - price_per_request cfg\<rparr>)
             in case debited treasury_token of
                  None \<Rightarrow> Inl AccountMismatch
                | Some t \<Rightarrow>
                    if mint t \<noteq> token_mint cfg then Inl AccountMismatch
                    else Inr (st\<lparr>token_accounts := debited
                      (treasury_token \<mapsto> t\<lparr>amount := amount t + price_per_request cfg\<rparr>)\<rparr>)))"

text \<open>Modelled from the spec: the positional account schemas of section 6, with their
  signer and writability flags, for the GENERATE tags and for INITIALIZE_PROGRAM.\<close>

definition generate_schema_ok :: "Program \<Rightarrow> AccountMeta list \<Rightarrow> bool" where
  "generate_schema_ok P accounts =
     (case accounts of
        [requester, requester_token, treasury_token, token_program, config_account, clock] \<Rightarrow>
          isSigner requester \<and> isWritable requester \<and> isWritable requester_token
          \<and> isWritable treasury_token
          \<and> \<not> isWritable config_account \<and> \<not> isWritable clock
          \<and> pubkey token_program = TOKEN_PROGRAM_ID
          \<and> pubkey config_account = config_address P
          \<and> pubkey clock = SYSVAR_CLOCK_PUBKEY
      | _ \<Rightarrow> False)"

definition initialize_schema_ok :: "Program \<Rightarrow> AccountMeta list \<Rightarrow> bool" where
  "initialize_schema_ok P accounts =
     (case accounts of
        [initializer, config_account] \<Rightarrow>
          isSigner initializer \<and> isWritable config_account
          \<and> pubkey config_account = config_address P
      | _ \<Rightarrow> False)"

text \<open>Modelled from the spec: the ProgramDispatcher (section 4.4, steps 1 to 4). The
  accounts are checked first; then INITIALIZE_PROGRAM creates Config unless it exists, and
  a GENERATE tag has the ledger move the price, takes the EntropyWord and gives the
  formatted bytes as return data.\<close>

definition process_initialize ::
  "Program \<Rightarrow> ChainState \<Rightarrow> Invocation \<Rightarrow> ProgramError + ChainState \<times> Buffer option" where
  "process_initialize P st call =
     (if \<not> initialize_schema_ok P (inv_accounts call) then Inl BadAccounts
      else case config st of
        Some cfg \<Rightarrow> Inl AlreadyInitialized
      | None \<Rightarrow> Inr (st\<lparr>config := Some (initial_config P)\<rparr>, None))"

definition process_generate ::
  "Program \<Rightarrow> ChainState \<Rightarrow> QrngInstructionType \<Rightarrow> Invocation
     \<Rightarrow> ProgramError + ChainState \<times> Buffer option" where
  "process_generate P st tag call =
     (if \<not> generate_schema_ok P (inv_accounts call) then Inl BadAccounts
      else case config st of
        None \<Rightarrow> Inl NotInitialized
      | Some cfg \<Rightarrow>
          (case debit_and_credit st cfg (pubkey (inv_accounts call ! 1))
                  (pubkey (inv_accounts call ! 2)) of
             Inl e \<Rightarrow> Inl e
           | Inr st1 \<Rightarrow>
               (case inv_entropy call of
                  None \<Rightarrow> Inl EntropyUnavailable
                | Some w \<Rightarrow> Inr (st1, format_output P tag w))))"

definition process_instruction ::
  "Program \<Rightarrow> ChainState \<Rightarrow> Invocation \<Rightarrow> ProgramError + ChainState \<times> Buffer option" where
  "process_instruction P st call =
     (case decode_tag (inv_data call) of
        None \<Rightarrow> Inl UnknownTag
      | Some INITIALIZE_PROGRAM \<Rightarrow> process_initialize P st call
      | Some tag \<Rightarrow> process_generate P st tag call)"

text \<open>Modelled from the spec: the host platform (sections 5 and 7) commits a successful
  invocation and rolls a failed one back, so that the state after a failure is the state
  before it and no return data exists. \<open>run\<close> is a sequence of invocations, each one
  carried to completion before the next.\<close>

definition invoke ::
  "Program \<Rightarrow> ChainState \<Rightarrow> Invocation \<Rightarrow> ChainState \<times> (ProgramError + Buffer option)" where
  "invoke P st call =
     (case process_instruction P st call of
        Inl e \<Rightarrow> (st, Inl e)
      | Inr (st', out) \<Rightarrow> (st', Inr out))"

fun run :: "Program \<Rightarrow> ChainState \<Rightarrow> Invocation list \<Rightarrow> ChainState" where
  "run P st [] = st"
| "run P st (call # calls) = run P (fst (invoke P st call)) calls"

text \<open>The amount held by a token account, 0 when the account does not exist.\<close>

definition balance :: "ChainState \<Rightarrow> PublicKey \<Rightarrow> nat" where
  "balance st k = (case token_accounts st k of None \<Rightarrow> 0 | Some a \<Rightarrow> amount a)"





section \<open>Concrete inputs\<close>

text \<open>A runtime that answers every call from a script: the token account of an owner, the
  balance, the bytes the return data decodes to, and the text a balance prints as.\<close>

definition printing_runtime ::
  "(PublicKey \<Rightarrow> js_error + PublicKey) \<Rightarrow> (js_error + rat option) \<Rightarrow> Buffer \<Rightarrow> string
     \<Rightarrow> Runtime" where
  "printing_runtime ata uiAmount buf printed =
     \<lparr> getOrCreateAssociatedTokenAccount = (\<lambda>payer mint owner allowOwnerOffCurve. ata owner),
       getTokenAccountBalance = (\<lambda>account. uiAmount),
       sendAndConfirmTransaction = (\<lambda>transaction signers. Inr ''signature''),
       getTransaction = (\<lambda>signature.
         Inr (Some \<lparr> meta = Some \<lparr> returnData = Some \<lparr> rd_data = Some ''base64'' \<rparr> \<rparr> \<rparr>)),
       Buffer_from_base64 = (\<lambda>text. buf),
       number_toString = (\<lambda>x. printed) \<rparr>"

definition scripted_runtime ::
  "(PublicKey \<Rightarrow> js_error + PublicKey) \<Rightarrow> (js_error + rat option) \<Rightarrow> Buffer \<Rightarrow> Runtime" where
  "scripted_runtime ata uiAmount buf = printing_runtime ata uiAmount buf ''1''"

definition ata_found :: "PublicKey \<Rightarrow> js_error + PublicKey" where
  "ata_found owner = Inr (''ata-of-'' @ owner)"

definition ata_missing :: "PublicKey \<Rightarrow> js_error + PublicKey" where
  "ata_missing owner = Inl (Error ''TokenAccountNotFoundError'')"

definition mainnet_client :: QrngClient where
  "mainnet_client =
     new_QrngClient (\<lambda>seed pid. ''pda-of-'' @ seed)
       \<lparr> opt_programId = None, opt_tokenMint = None, opt_treasuryAddress = None \<rparr>"

definition demo_program :: Program where
  "demo_program =
     \<lparr> config_address = ''config-pda'',
       initial_config = \<lparr> treasury_token_account = ''treasury-ata'', token_mint = ''mint'',
                          price_per_request = 1000000000 \<rparr>,
       double_of_entropy = (\<lambda>w. drop_bit 11 w),
       designated_bit = 63 \<rparr>"

definition demo_state :: "nat \<Rightarrow> ChainState" where
  "demo_state held =
     \<lparr> config = Some (initial_config demo_program),
       token_accounts = [''user-ata'' \<mapsto> \<lparr> mint = ''mint'', amount = held \<rparr>,
                         ''treasury-ata'' \<mapsto> \<lparr> mint = ''mint'', amount = 5 \<rparr>] \<rparr>"

definition demo_empty :: ChainState where
  "demo_empty = \<lparr> config = None, token_accounts = Map.empty \<rparr>"

definition demo_fresh :: "nat \<Rightarrow> ChainState" where
  "demo_fresh held = (demo_state held)\<lparr>config := None\<rparr>"

definition demo_call :: "QrngInstructionType \<Rightarrow> Invocation" where
  "demo_call t =
     \<lparr> inv_data = instructionData t,
       inv_accounts = keys (main_instruction
          \<lparr> programId = ''program'', tokenMint = ''mint'', treasuryAddress = ''treasury'',
            configPda = ''config-pda'' \<rparr> ''user'' ''user-ata'' ''treasury-ata'' t),
       inv_entropy = Some 258 \<rparr>"

definition demo_initialize :: Invocation where
  "demo_initialize =
     \<lparr> inv_data = instructionData INITIALIZE_PROGRAM,
       inv_accounts = [\<lparr> pubkey = ''admin'', isSigner = True, isWritable = True \<rparr>,
                       \<lparr> pubkey = ''config-pda'', isSigner = False, isWritable = True \<rparr>],
       inv_entropy = None \<rparr>"

section \<open>Lemmas\<close>

subsection \<open>Bytes of a 64-bit word\<close>

lemma upt_8: "[0..<8] = [0, 1, 2, 3, 4, 5, 6, 7 :: nat]"
  by (simp add: upt_rec)

lemma uint_drop_bit_64: "uint (drop_bit k (w :: 64 word)) = uint w div 2 ^ k"
proof -
  have "take_bit 64 (uint w) = uint w"
    using uint_idem [of w] by (simp add: take_bit_eq_mod)
  then have "uint (drop_bit k w) = drop_bit k (uint w)"
    by (simp only: unsigned_drop_bit_eq len_bit0 len_num1 mult_1_right numeral_One [symmetric])
       simp
  then show ?thesis
    by (simp add: drop_bit_eq_div)
qed

lemma uint_byte_of_drop: "uint (ucast (drop_bit k (w :: 64 word)) :: byte) = uint w div 2 ^ k mod 256"
proof -
  have "uint (ucast (drop_bit k w) :: byte) = take_bit 8 (uint (drop_bit k w))"
    by (simp only: unsigned_ucast_eq len_bit0 len_num1 mult_1_right numeral_One [symmetric])
       simp
  then show ?thesis
    by (simp add: uint_drop_bit_64 take_bit_eq_mod)
qed

lemma uint_byte_of_word: "uint (ucast (w :: 64 word) :: byte) = uint w mod 256"
  using uint_byte_of_drop [of 0 w] by simp

lemma mod_by_next_byte: "(x :: int) mod (a * 256) = x mod a + a * (x div a mod 256)"
  using zmod_zmult2_eq [of 256 x a] by simp

lemma eight_digits:
  fixes x :: int
  assumes "m2 = b0 + 256 * b1" "m3 = m2 + 65536 * b2" "m4 = m3 + 16777216 * b3"
    "m5 = m4 + 4294967296 * b4" "m6 = m5 + 1099511627776 * b5"
    "m7 = m6 + 281474976710656 * b6" "x = m7 + 72057594037927936 * b7"
  shows "(b0 + b1 * 256 + b2 * 65536 + b3 * 16777216)
         + (b4 + b5 * 256 + b6 * 65536 + b7 * 16777216) * 4294967296 = x"
  using assms by simp

lemma le_bytes_value:
  fixes x :: int
  assumes "0 \<le> x" "x < 2 ^ 64"
  shows "(x mod 256 + (x div 2 ^ 8) mod 256 * 2 ^ 8 + (x div 2 ^ 16) mod 256 * 2 ^ 16
           + (x div 2 ^ 24) mod 256 * 2 ^ 24)
         + ((x div 2 ^ 32) mod 256 + (x div 2 ^ 40) mod 256 * 2 ^ 8
           + (x div 2 ^ 48) mod 256 * 2 ^ 16 + (x div 2 ^ 56) mod 256 * 2 ^ 24) * 2 ^ 32 = x"
proof -
  have s1: "x mod 65536 = x mod 256 + 256 * (x div 256 mod 256)"
    using mod_by_next_byte [of x 256] by simp
  have s2: "x mod 16777216 = x mod 65536 + 65536 * (x div 65536 mod 256)"
    using mod_by_next_byte [of x 65536] by simp
  have s3: "x mod 4294967296 = x mod 16777216 + 16777216 * (x div 16777216 mod 256)"
    using mod_by_next_byte [of x 16777216] by simp
  have s4: "x mod 1099511627776 = x mod 4294967296 + 4294967296 * (x div 4294967296 mod 256)"
    using mod_by_next_byte [of x 4294967296] by simp
  have s5: "x mod 281474976710656 =
            x mod 1099511627776 + 1099511627776 * (x div 1099511627776 mod 256)"
    using mod_by_next_byte [of x 1099511627776] by simp
  have s6: "x mod 72057594037927936 =
            x mod 281474976710656 + 281474976710656 * (x div 281474976710656 mod 256)"
    using mod_by_next_byte [of x 281474976710656] by simp
  have s7: "x mod 18446744073709551616 =
            x mod 72057594037927936 + 72057594037927936 * (x div 72057594037927936 mod 256)"
    using mod_by_next_byte [of x 72057594037927936] by simp
  have s8: "x mod 18446744073709551616 = x"
    using assms by simp
  have s9: "x = x mod 72057594037927936 + 72057594037927936 * (x div 72057594037927936 mod 256)"
    using s7 s8 by (rule box_equals [OF _ _ refl])
  have "(x mod 256 + (x div 256) mod 256 * 256 + (x div 65536) mod 256 * 65536
           + (x div 16777216) mod 256 * 16777216)
         + ((x div 4294967296) mod 256 + (x div 1099511627776) mod 256 * 256
           + (x div 281474976710656) mod 256 * 65536
           + (x div 72057594037927936) mod 256 * 16777216) * 4294967296 = x"
    by (rule eight_digits [OF s1 s2 s3 s4 s5 s6 s9])
  then show ?thesis
    by simp
qed

lemma readBigUInt64LE_le_bytes: "readBigUInt64LE (u64_to_le_bytes w) 0 = Inr (uint w)"
proof -
  have b: "uint w < 2 ^ 64"
    using uint_bounded [of w] by simp
  show ?thesis
    unfolding readBigUInt64LE_def u64_to_le_bytes_def upt_8
    using le_bytes_value [OF uint_nonnegative b]
    by (simp add: Let_def uint_byte_of_drop uint_byte_of_word uint_drop_bit_64)
qed

lemma length_u64_to_le_bytes: "length (u64_to_le_bytes w) = 8"
  by (simp add: u64_to_le_bytes_def)

lemma readBigUInt64LE_in_range: "8 \<le> length b \<Longrightarrow> \<exists>v. readBigUInt64LE b 0 = Inr v"
  by (simp add: readBigUInt64LE_def Let_def)

subsection \<open>The client\<close>

lemma wrap_error_QrngError: "\<exists>m. wrap_error e = QrngError m"
  by (cases e) simp_all

lemma generateRandom_throws_QrngError:
  "snd (generateRandom rt c w t) = Inl e \<Longrightarrow> \<exists>m. e = QrngError m"
  using wrap_error_QrngError
  by (auto simp: generateRandom_def Let_def split: sum.splits if_splits)

lemma generateRandom_submitted:
  assumes "tx \<in> set (fst (generateRandom rt c w t))"
  shows "\<exists>u tr. getOrCreateAssociatedTokenAccount rt w (tokenMint c) w False = Inr u
           \<and> getOrCreateAssociatedTokenAccount rt w (tokenMint c) (treasuryAddress c) True = Inr tr
           \<and> tx = [main_instruction c w u tr t]"
  using assms
  by (auto simp: generateRandom_def Let_def split: sum.splits if_splits)

lemmas client_defs = generateRandom_def scripted_runtime_def printing_runtime_def ata_found_def ata_missing_def
  mainnet_client_def new_QrngClient_def extract_return_data_def Let_def

lemma scripted_generateRandom:
  "generateRandom (scripted_runtime ata_found (Inr (Some 1)) buf) mainnet_client ''wallet'' t =
     ([[main_instruction mainnet_client ''wallet'' ''ata-of-wallet''
          (''ata-of-'' @ DEFAULT_TREASURY_ADDRESS) t]], Inr buf)"
  by (simp add: client_defs)

subsection \<open>The on-chain program\<close>

lemma debit_and_credit_config:
  "debit_and_credit st cfg rq tr = Inr st' \<Longrightarrow> config st' = config st"
  by (auto simp: debit_and_credit_def Let_def split: if_splits option.splits)





lemma format_output_generate:
  "t \<noteq> INITIALIZE_PROGRAM \<Longrightarrow> \<exists>out. format_output P t w = Some out \<and> out \<noteq> []"
  by (cases t) (simp_all add: u64_to_le_bytes_def)

lemma process_generate_cases:
  assumes "t \<noteq> INITIALIZE_PROGRAM"
  shows "(\<exists>e. process_generate P st t call = Inl e)
         \<or> (\<exists>cfg st' w out. config st = Some cfg
               \<and> generate_schema_ok P (inv_accounts call)
               \<and> debit_and_credit st cfg (pubkey (inv_accounts call ! 1))
                    (pubkey (inv_accounts call ! 2)) = Inr st'
               \<and> inv_entropy call = Some w \<and> format_output P t w = Some out \<and> out \<noteq> []
               \<and> process_generate P st t call = Inr (st', Some out))"
  using format_output_generate [OF assms]
  by (auto simp: process_generate_def split: option.splits sum.splits)

lemma process_instruction_generate:
  "decode_tag (inv_data call) = Some t \<Longrightarrow> t \<noteq> INITIALIZE_PROGRAM \<Longrightarrow>
   process_instruction P st call = process_generate P st t call"
  by (cases t) (simp_all add: process_instruction_def)

lemma invoke_config:
  assumes "config st = Some cfg"
  shows "config (fst (invoke P st call)) = Some cfg"
proof (cases "process_instruction P st call")
  case (Inl e)
  then show ?thesis using assms by (simp add: invoke_def)
next
  case (Inr p)
  obtain st' out where p: "p = (st', out)" by (cases p)
  have "config st' = Some cfg"
    using Inr p assms debit_and_credit_config
    by (auto simp: process_instruction_def process_initialize_def process_generate_def
             split: option.splits QrngInstructionType.splits if_splits sum.splits)
  with Inr p show ?thesis by (simp add: invoke_def)
qed

lemma run_config:
  "config st = Some cfg \<Longrightarrow> config (run P st calls) = Some cfg"
proof (induction calls arbitrary: st)
  case Nil
  then show ?case by simp
next
  case (Cons call calls)
  from Cons.prems have "config (fst (invoke P st call)) = Some cfg"
    by (rule invoke_config)
  then show ?case
    using Cons.IH by simp
qed

lemma initialize_rejected:
  "config st = Some cfg \<Longrightarrow> decode_tag (inv_data call) = Some INITIALIZE_PROGRAM \<Longrightarrow>
   \<exists>e. invoke P st call = (st, Inl e)"
  by (simp add: invoke_def process_instruction_def process_initialize_def)

lemma initialize_accepted:
  assumes "decode_tag (inv_data call) = Some INITIALIZE_PROGRAM"
    and "invoke P st0 call = (st, Inr out)"
  shows "config st0 = None \<and> config st = Some (initial_config P)"
  using assms
  by (auto simp: invoke_def process_instruction_def process_initialize_def
           split: option.splits if_splits)




lemma generate_commit:
  assumes "decode_tag (inv_data call) = Some t" "t \<noteq> INITIALIZE_PROGRAM"
    and "invoke P st call = (st', Inr out)"
  shows "\<exists>cfg w bytes. config st = Some cfg \<and> generate_schema_ok P (inv_accounts call)
           \<and> debit_and_credit st cfg (pubkey (inv_accounts call ! 1))
                (pubkey (inv_accounts call ! 2)) = Inr st'
           \<and> inv_entropy call = Some w \<and> format_output P t w = Some bytes \<and> bytes \<noteq> []
           \<and> out = Some bytes"
proof -
  have pi: "process_instruction P st call = process_generate P st t call"
    using assms(1,2) by (rule process_instruction_generate)
  from process_generate_cases [OF assms(2), of P st call]
  show ?thesis
  proof
    assume "\<exists>e. process_generate P st t call = Inl e"
    then show ?thesis using assms(3) by (auto simp: invoke_def pi)
  next
    assume "\<exists>cfg st' w out. config st = Some cfg
               \<and> generate_schema_ok P (inv_accounts call)
               \<and> debit_and_credit st cfg (pubkey (inv_accounts call ! 1))
                    (pubkey (inv_accounts call ! 2)) = Inr st'
               \<and> inv_entropy call = Some w \<and> format_output P t w = Some out \<and> out \<noteq> []
               \<and> process_generate P st t call = Inr (st', Some out)"
    then show ?thesis using assms(3) by (auto simp: invoke_def pi)
  qed
qed




lemmas demo_defs = demo_program_def demo_state_def demo_empty_def demo_fresh_def demo_call_def
  demo_initialize_def main_instruction_def instructionData_def Buffer_from_def

lemmas onchain_defs = invoke_def process_instruction_def process_generate_def
  process_initialize_def decode_tag_def generate_schema_ok_def initialize_schema_ok_def
  debit_and_credit_def balance_def TOKEN_PROGRAM_ID_def SYSVAR_CLOCK_PUBKEY_def Let_def

lemma demo_decode:
  "decode_tag (inv_data (demo_call GENERATE_RANDOM_U64)) = Some GENERATE_RANDOM_U64"
  by (simp add: demo_defs decode_tag_def)

lemma demo_decode_initialize:
  "decode_tag (inv_data demo_initialize) = Some INITIALIZE_PROGRAM"
  by (simp add: demo_defs decode_tag_def)

lemma demo_invoke_exact:
  "invoke demo_program (demo_state 1000000000) (demo_call GENERATE_RANDOM_U64) =
     (\<lparr> config = Some (initial_config demo_program),
        token_accounts = [''user-ata'' \<mapsto> \<lparr> mint = ''mint'', amount = 0 \<rparr>,
                         ''treasury-ata'' \<mapsto> \<lparr> mint = ''mint'', amount = 1000000005 \<rparr>] \<rparr>,
      Inr (Some [2, 1, 0, 0, 0, 0, 0, 0]))"
  by (simp add: demo_defs onchain_defs u64_to_le_bytes_def upt_rec fun_upd_twist)


lemma demo_initialize_first:
  "invoke demo_program demo_empty demo_initialize =
     (\<lparr> config = Some (initial_config demo_program), token_accounts = Map.empty \<rparr>, Inr None)"
  by (simp add: demo_defs onchain_defs)

lemma demo_initialize_again:
  "invoke demo_program (demo_state 1000000000) demo_initialize =
     (demo_state 1000000000, Inl AlreadyInitialized)"
  by (simp add: demo_defs onchain_defs)

section \<open>The claims\<close>



text \<open>Claim C2. The claim reads a boolean payload as true exactly when its first byte is
  nonzero, as docs/getting-started/README.md (line 91) documents. The client compares the
  byte with 1 (client.ts, line 128): a payload is true exactly when its first byte is 1,
  and at the return buffer holding the single byte 2 \<open>generateRandomBoolean\<close> resolves
  to false.\<close>

theorem generateRandomBoolean_byte_two:
  "snd (generateRandomBoolean (scripted_runtime ata_found (Inr (Some 1)) [2])
          mainnet_client ''wallet'') = Inr False
   \<and> (2 :: byte) \<noteq> 0
   \<and> generateRandomBoolean_result (b # bs) = Inr (b = 1)"
  by (simp add: generateRandomBoolean_def scripted_generateRandom
        generateRandomBoolean_result_def)

text \<open>Claim C3. The u64 path is the identity through the wire. For every 64-bit
  EntropyWord \<open>W\<close>: the return data that a committed GENERATE_RANDOM_U64 invocation
  emits for \<open>W\<close> is the eight little-endian bytes of \<open>W\<close>; reading these bytes
  with \<open>readBigUInt64LE\<close> at offset 0 gives the value of \<open>W\<close>; and whenever
  \<open>generateRandom\<close> resolves to these bytes, \<open>generateRandomU64\<close> resolves to
  exactly the value of \<open>W\<close>, having submitted the same transactions.\<close>

theorem u64_wire_roundtrip:
  "format_output P GENERATE_RANDOM_U64 W = Some (u64_to_le_bytes W)
   \<and> length (u64_to_le_bytes W) = 8
   \<and> readBigUInt64LE (u64_to_le_bytes W) 0 = Inr (uint W)
   \<and> generateRandomU64_result (u64_to_le_bytes W) = Inr (uint W)
   \<and> 0 \<le> uint W \<and> uint W < 2 ^ 64
   \<and> (decode_tag (inv_data call) = Some GENERATE_RANDOM_U64 \<and> inv_entropy call = Some W
        \<and> invoke P st call = (st', Inr out) \<longrightarrow> out = Some (u64_to_le_bytes W))
   \<and> (generateRandom rt c wallet GENERATE_RANDOM_U64 = (txs, Inr (u64_to_le_bytes W))
        \<longrightarrow> generateRandomU64 rt c wallet = (txs, Inr (uint W)))"
proof (intro conjI impI)
  show "uint W < 2 ^ 64"
    using uint_bounded [of W] by simp
next
  assume h: "decode_tag (inv_data call) = Some GENERATE_RANDOM_U64 \<and> inv_entropy call = Some W
        \<and> invoke P st call = (st', Inr out)"
  then have "decode_tag (inv_data call) = Some GENERATE_RANDOM_U64"
    and "invoke P st call = (st', Inr out)"
    by simp_all
  from generate_commit [OF this(1) _ this(2)] h
  show "out = Some (u64_to_le_bytes W)"
    by auto
next
  assume "generateRandom rt c wallet GENERATE_RANDOM_U64 = (txs, Inr (u64_to_le_bytes W))"
  then show "generateRandomU64 rt c wallet = (txs, Inr (uint W))"
    by (simp add: generateRandomU64_def generateRandomU64_result_def length_u64_to_le_bytes
          readBigUInt64LE_le_bytes)
qed (simp_all add: generateRandomU64_result_def length_u64_to_le_bytes
       readBigUInt64LE_le_bytes)

theorem u64_wire_roundtrip_witness:
  "decode_tag (inv_data (demo_call GENERATE_RANDOM_U64)) = Some GENERATE_RANDOM_U64
   \<and> inv_entropy (demo_call GENERATE_RANDOM_U64) = Some 258
   \<and> snd (invoke demo_program (demo_state 1000000000) (demo_call GENERATE_RANDOM_U64))
       = Inr (Some (u64_to_le_bytes 258))
   \<and> u64_to_le_bytes 258 = [2, 1, 0, 0, 0, 0, 0, 0]
   \<and> generateRandom (scripted_runtime ata_found (Inr (Some 1)) (u64_to_le_bytes 258))
        mainnet_client ''wallet'' GENERATE_RANDOM_U64
      = ([[main_instruction mainnet_client ''wallet'' ''ata-of-wallet''
             (''ata-of-'' @ DEFAULT_TREASURY_ADDRESS) GENERATE_RANDOM_U64]],
         Inr (u64_to_le_bytes 258))
   \<and> generateRandomU64 (scripted_runtime ata_found (Inr (Some 1)) (u64_to_le_bytes 258))
        mainnet_client ''wallet''
      = ([[main_instruction mainnet_client ''wallet'' ''ata-of-wallet''
             (''ata-of-'' @ DEFAULT_TREASURY_ADDRESS) GENERATE_RANDOM_U64]], Inr 258)
   \<and> generateRandomU64
        (scripted_runtime ata_found (Inr (Some 1)) (u64_to_le_bytes 18364758544493064720))
        mainnet_client ''wallet''
      = ([[main_instruction mainnet_client ''wallet'' ''ata-of-wallet''
             (''ata-of-'' @ DEFAULT_TREASURY_ADDRESS) GENERATE_RANDOM_U64]],
         Inr 18364758544493064720)"
proof -
  have b: "u64_to_le_bytes 258 = [2, 1, 0, 0, 0, 0, 0, 0]"
    by (simp add: u64_to_le_bytes_def upt_rec)
  have e: "inv_entropy (demo_call GENERATE_RANDOM_U64) = Some 258"
    by (simp add: demo_defs)
  have u: "uint (258 :: 64 word) = 258" "uint (18364758544493064720 :: 64 word) = 18364758544493064720"
    by simp_all
  show ?thesis
    using u64_wire_roundtrip [where W = 258 and call = "demo_call GENERATE_RANDOM_U64"
        and P = demo_program and st = "demo_state 1000000000"
        and rt = "scripted_runtime ata_found (Inr (Some 1)) (u64_to_le_bytes 258)"
        and c = mainnet_client and wallet = "''wallet''"]
      u64_wire_roundtrip [where W = 18364758544493064720
        and rt = "scripted_runtime ata_found (Inr (Some 1)) (u64_to_le_bytes 18364758544493064720)"
        and c = mainnet_client and wallet = "''wallet''"]
      b e u
    by (simp add: scripted_generateRandom demo_invoke_exact demo_decode)
qed





text \<open>Claim C6. Every transaction that \<open>generateRandom\<close> submits, whatever the
  instruction type, holds one instruction whose account list is, in this order: the
  requester (signer, writable), the requester's token account (writable, not a signer), the
  treasury's token account (writable, not a signer), the token program (read-only), the
  config PDA (read-only) and the clock sysvar (read-only). The list does not depend on the
  tag.\<close>

theorem generate_account_list:
  assumes "tx \<in> set (fst (generateRandom rt c w t))"
  shows "\<exists>u tr. getOrCreateAssociatedTokenAccount rt w (tokenMint c) w False = Inr u
           \<and> getOrCreateAssociatedTokenAccount rt w (tokenMint c) (treasuryAddress c) True = Inr tr
           \<and> map keys tx = [[
                \<lparr> pubkey = w, isSigner = True, isWritable = True \<rparr>,
                \<lparr> pubkey = u, isSigner = False, isWritable = True \<rparr>,
                \<lparr> pubkey = tr, isSigner = False, isWritable = True \<rparr>,
                \<lparr> pubkey = TOKEN_PROGRAM_ID, isSigner = False, isWritable = False \<rparr>,
                \<lparr> pubkey = configPda c, isSigner = False, isWritable = False \<rparr>,
                \<lparr> pubkey = SYSVAR_CLOCK_PUBKEY, isSigner = False, isWritable = False \<rparr> ]]"
  using generateRandom_submitted [OF assms]
  by (auto simp: main_instruction_def)

theorem generate_account_list_witness:
  "[main_instruction mainnet_client ''wallet'' ''ata-of-wallet''
      (''ata-of-'' @ DEFAULT_TREASURY_ADDRESS) GENERATE_RANDOM_DOUBLE]
   \<in> set (fst (generateRandom (scripted_runtime ata_found (Inr (Some 1)) []) mainnet_client
              ''wallet'' GENERATE_RANDOM_DOUBLE))
   \<and> map keys [main_instruction mainnet_client ''wallet'' ''ata-of-wallet''
        (''ata-of-'' @ DEFAULT_TREASURY_ADDRESS) GENERATE_RANDOM_DOUBLE] = [[
        \<lparr> pubkey = ''wallet'', isSigner = True, isWritable = True \<rparr>,
        \<lparr> pubkey = ''ata-of-wallet'', isSigner = False, isWritable = True \<rparr>,
        \<lparr> pubkey = ''ata-of-3vuKcjqows8T19z7amN2XMkSdVcicqBuf5vVa8ZjaVfc'',
          isSigner = False, isWritable = True \<rparr>,
        \<lparr> pubkey = ''TokenkegQfeZyiNwAJbNbGKPFXCWuBvf9Ss623VQ5DA'',
          isSigner = False, isWritable = False \<rparr>,
        \<lparr> pubkey = ''pda-of-token_qrng_config'', isSigner = False, isWritable = False \<rparr>,
        \<lparr> pubkey = ''SysvarC1ock11111111111111111111111111111111'',
          isSigner = False, isWritable = False \<rparr> ]]"
proof -
  have m: "[main_instruction mainnet_client ''wallet'' ''ata-of-wallet''
      (''ata-of-'' @ DEFAULT_TREASURY_ADDRESS) GENERATE_RANDOM_DOUBLE]
   \<in> set (fst (generateRandom (scripted_runtime ata_found (Inr (Some 1)) []) mainnet_client
              ''wallet'' GENERATE_RANDOM_DOUBLE))"
    by (simp add: scripted_generateRandom)
  show ?thesis
    using m generate_account_list [OF m]
    by (simp add: scripted_generateRandom main_instruction_def mainnet_client_def
          new_QrngClient_def DEFAULT_TREASURY_ADDRESS_def TOKEN_PROGRAM_ID_def
          SYSVAR_CLOCK_PUBKEY_def Let_def)
qed

text \<open>Claim C7. The enum values are INITIALIZE_PROGRAM = 0, GENERATE_RANDOM_U64 = 1,
  GENERATE_RANDOM_DOUBLE = 2 and GENERATE_RANDOM_BOOLEAN = 3, and every transaction that
  \<open>generateRandom\<close> submits holds one instruction whose data is exactly one byte, the
  value of the instruction type.\<close>

theorem instruction_payload_is_tag:
  "enum_value INITIALIZE_PROGRAM = 0 \<and> enum_value GENERATE_RANDOM_U64 = 1
   \<and> enum_value GENERATE_RANDOM_DOUBLE = 2 \<and> enum_value GENERATE_RANDOM_BOOLEAN = 3
   \<and> (\<forall>tx \<in> set (fst (generateRandom rt c w t)).
         map data tx = [[of_nat (enum_value t)]] \<and> map (map unat \<circ> data) tx = [[enum_value t]])"
proof -
  have "unat (of_nat (enum_value t) :: byte) = enum_value t"
    by (cases t) simp_all
  moreover have "\<exists>ix. tx = [ix] \<and> data ix = [of_nat (enum_value t)]"
    if "tx \<in> set (fst (generateRandom rt c w t))" for tx
    using generateRandom_submitted [OF that]
    by (auto simp: main_instruction_def instructionData_def Buffer_from_def)
  ultimately show ?thesis
    by fastforce
qed

theorem instruction_payload_is_tag_witness:
  "[main_instruction mainnet_client ''wallet'' ''ata-of-wallet''
      (''ata-of-'' @ DEFAULT_TREASURY_ADDRESS) GENERATE_RANDOM_BOOLEAN]
   \<in> set (fst (generateRandom (scripted_runtime ata_found (Inr (Some 1)) []) mainnet_client
              ''wallet'' GENERATE_RANDOM_BOOLEAN))
   \<and> map data [main_instruction mainnet_client ''wallet'' ''ata-of-wallet''
        (''ata-of-'' @ DEFAULT_TREASURY_ADDRESS) GENERATE_RANDOM_BOOLEAN] = [[3]]"
  using instruction_payload_is_tag [of "scripted_runtime ata_found (Inr (Some 1)) []"
      mainnet_client "''wallet''" GENERATE_RANDOM_BOOLEAN]
  by (simp add: scripted_generateRandom)

text \<open>Claim C8. Config is created at most once. When an INITIALIZE_PROGRAM invocation
  succeeds there was no Config before it and Config holds the initial values after it;
  from then on, after any sequence of invocations of any tags, Config still holds these
  values, and every further INITIALIZE_PROGRAM invocation fails and leaves the state
  unchanged, Config with it.\<close>

theorem config_created_once:
  assumes "decode_tag (inv_data first) = Some INITIALIZE_PROGRAM"
    and "invoke P st0 first = (st, Inr out)"
  shows "config st0 = None
         \<and> config st = Some (initial_config P)
         \<and> config (run P st calls) = Some (initial_config P)
         \<and> (decode_tag (inv_data call) = Some INITIALIZE_PROGRAM
              \<longrightarrow> (\<exists>e. invoke P (run P st calls) call = (run P st calls, Inl e)))"
proof -
  have i: "config st0 = None \<and> config st = Some (initial_config P)"
    using assms by (rule initialize_accepted)
  then have r: "config (run P st calls) = Some (initial_config P)"
    by (simp add: run_config)
  show ?thesis
    using i r initialize_rejected [OF r] by blast
qed

theorem config_created_once_witness:
  "decode_tag (inv_data demo_initialize) = Some INITIALIZE_PROGRAM
   \<and> invoke demo_program demo_empty demo_initialize
       = (\<lparr> config = Some (initial_config demo_program), token_accounts = Map.empty \<rparr>, Inr None)
   \<and> config (run demo_program
        \<lparr> config = Some (initial_config demo_program), token_accounts = Map.empty \<rparr>
        [demo_call GENERATE_RANDOM_U64, demo_initialize, demo_call GENERATE_RANDOM_BOOLEAN])
       = Some (initial_config demo_program)
   \<and> (\<exists>e. invoke demo_program
        \<lparr> config = Some (initial_config demo_program), token_accounts = Map.empty \<rparr> demo_initialize
       = (\<lparr> config = Some (initial_config demo_program), token_accounts = Map.empty \<rparr>, Inl e))"
  using config_created_once [OF demo_decode_initialize demo_initialize_first,
      of "[demo_call GENERATE_RANDOM_U64, demo_initialize, demo_call GENERATE_RANDOM_BOOLEAN]"
         demo_initialize]
    config_created_once [OF demo_decode_initialize demo_initialize_first, of "[]" demo_initialize]
  by (simp add: demo_decode_initialize demo_initialize_first)

text \<open>Claim C9. A return buffer shorter than the width of the requested type makes the
  method throw the QrngError "Invalid return data from QRNG service": fewer than 8 bytes
  for \<open>generateRandomU64\<close> and \<open>generateRandomDouble\<close>, the empty buffer for
  \<open>generateRandomBoolean\<close>. No read goes out of bounds: neither of the two methods
  that read eight bytes ever throws the RangeError of the buffer.\<close>

theorem short_return_data_rejected:
  "(snd (generateRandom rt c w GENERATE_RANDOM_U64) = Inr b \<and> length b < 8
      \<longrightarrow> snd (generateRandomU64 rt c w)
            = Inl (QrngError ''Invalid return data from QRNG service''))
   \<and> (snd (generateRandom rt c w GENERATE_RANDOM_DOUBLE) = Inr b \<and> length b < 8
      \<longrightarrow> snd (generateRandomDouble rt c w)
            = Inl (QrngError ''Invalid return data from QRNG service''))
   \<and> (snd (generateRandom rt c w GENERATE_RANDOM_BOOLEAN) = Inr b \<and> length b < 1
      \<longrightarrow> snd (generateRandomBoolean rt c w)
            = Inl (QrngError ''Invalid return data from QRNG service''))
   \<and> snd (generateRandomU64 rt c w) \<noteq> Inl (Error ''RangeError'')
   \<and> snd (generateRandomDouble rt c w) \<noteq> Inl (Error ''RangeError'')"
proof (intro conjI impI)
  assume "snd (generateRandom rt c w GENERATE_RANDOM_U64) = Inr b \<and> length b < 8"
  then show "snd (generateRandomU64 rt c w)
             = Inl (QrngError ''Invalid return data from QRNG service'')"
    by (cases "generateRandom rt c w GENERATE_RANDOM_U64")
       (simp add: generateRandomU64_def generateRandomU64_result_def)
next
  assume "snd (generateRandom rt c w GENERATE_RANDOM_DOUBLE) = Inr b \<and> length b < 8"
  then show "snd (generateRandomDouble rt c w)
             = Inl (QrngError ''Invalid return data from QRNG service'')"
    by (cases "generateRandom rt c w GENERATE_RANDOM_DOUBLE")
       (simp add: generateRandomDouble_def generateRandomDouble_result_def)
next
  assume "snd (generateRandom rt c w GENERATE_RANDOM_BOOLEAN) = Inr b \<and> length b < 1"
  then show "snd (generateRandomBoolean rt c w)
             = Inl (QrngError ''Invalid return data from QRNG service'')"
    by (cases "generateRandom rt c w GENERATE_RANDOM_BOOLEAN")
       (simp add: generateRandomBoolean_def generateRandomBoolean_result_def)
next
  obtain txs r where g: "generateRandom rt c w GENERATE_RANDOM_U64 = (txs, r)"
    by (cases "generateRandom rt c w GENERATE_RANDOM_U64")
  show "snd (generateRandomU64 rt c w) \<noteq> Inl (Error ''RangeError'')"
  proof (cases r)
    case (Inl e)
    with g generateRandom_throws_QrngError [of rt c w GENERATE_RANDOM_U64 e]
    show ?thesis by (auto simp: generateRandomU64_def)
  next
    case (Inr buf)
    with g readBigUInt64LE_in_range [of buf]
    show ?thesis
      by (auto simp: generateRandomU64_def generateRandomU64_result_def not_less)
  qed
next
  obtain txs r where g: "generateRandom rt c w GENERATE_RANDOM_DOUBLE = (txs, r)"
    by (cases "generateRandom rt c w GENERATE_RANDOM_DOUBLE")
  show "snd (generateRandomDouble rt c w) \<noteq> Inl (Error ''RangeError'')"
  proof (cases r)
    case (Inl e)
    with g generateRandom_throws_QrngError [of rt c w GENERATE_RANDOM_DOUBLE e]
    show ?thesis by (auto simp: generateRandomDouble_def)
  next
    case (Inr buf)
    with g readBigUInt64LE_in_range [of buf]
    show ?thesis
      by (auto simp: generateRandomDouble_def generateRandomDouble_result_def
            readDoubleLE_def not_less)
  qed
qed

theorem short_return_data_rejected_witness:
  "snd (generateRandom (scripted_runtime ata_found (Inr (Some 1)) [7, 7, 7]) mainnet_client
          ''wallet'' GENERATE_RANDOM_U64) = Inr [7, 7, 7]
   \<and> snd (generateRandom (scripted_runtime ata_found (Inr (Some 1)) [7, 7, 7]) mainnet_client
          ''wallet'' GENERATE_RANDOM_DOUBLE) = Inr [7, 7, 7]
   \<and> length [7 :: byte, 7, 7] < 8
   \<and> snd (generateRandomU64 (scripted_runtime ata_found (Inr (Some 1)) [7, 7, 7])
          mainnet_client ''wallet'') = Inl (QrngError ''Invalid return data from QRNG service'')
   \<and> snd (generateRandomDouble (scripted_runtime ata_found (Inr (Some 1)) [7, 7, 7])
          mainnet_client ''wallet'') = Inl (QrngError ''Invalid return data from QRNG service'')
   \<and> snd (generateRandom (scripted_runtime ata_found (Inr (Some 1)) []) mainnet_client
          ''wallet'' GENERATE_RANDOM_BOOLEAN) = Inr []
   \<and> snd (generateRandomBoolean (scripted_runtime ata_found (Inr (Some 1)) [])
          mainnet_client ''wallet'') = Inl (QrngError ''Invalid return data from QRNG service'')"
  using short_return_data_rejected [of "scripted_runtime ata_found (Inr (Some 1)) [7, 7, 7]"
      mainnet_client "''wallet''" "[7, 7, 7]"]
    short_return_data_rejected [of "scripted_runtime ata_found (Inr (Some 1)) []"
      mainnet_client "''wallet''" "[]"]
  by (simp add: scripted_generateRandom)

text \<open>Claim C10. \<open>getTokenBalance\<close> never throws: it always resolves to a number, and
  that number is 0 when the lookup of the associated token account throws, when the
  balance request throws, and when the reported UI amount is null.\<close>

theorem getTokenBalance_never_throws:
  "(\<exists>v. getTokenBalance rt c w = Inr v)
   \<and> (\<forall>e. getOrCreateAssociatedTokenAccount rt w (tokenMint c) w True = Inl e
          \<longrightarrow> getTokenBalance rt c w = Inr 0)
   \<and> (\<forall>a e. getOrCreateAssociatedTokenAccount rt w (tokenMint c) w True = Inr a
            \<and> getTokenAccountBalance rt a = Inl e \<longrightarrow> getTokenBalance rt c w = Inr 0)
   \<and> (\<forall>a. getOrCreateAssociatedTokenAccount rt w (tokenMint c) w True = Inr a
            \<and> getTokenAccountBalance rt a = Inr None \<longrightarrow> getTokenBalance rt c w = Inr 0)"
  by (auto simp: getTokenBalance_def getTokenBalance_try_def split: sum.splits)

theorem getTokenBalance_never_throws_witness:
  "getOrCreateAssociatedTokenAccount (scripted_runtime ata_missing (Inr (Some 5)) [])
       ''wallet'' (tokenMint mainnet_client) ''wallet'' True = Inl (Error ''TokenAccountNotFoundError'')
   \<and> getTokenBalance (scripted_runtime ata_missing (Inr (Some 5)) []) mainnet_client ''wallet''
       = Inr 0
   \<and> getTokenAccountBalance (scripted_runtime ata_found (Inl (Error ''fetch failed'')) [])
       ''ata-of-wallet'' = Inl (Error ''fetch failed'')
   \<and> getTokenBalance (scripted_runtime ata_found (Inl (Error ''fetch failed'')) [])
       mainnet_client ''wallet'' = Inr 0
   \<and> getTokenAccountBalance (scripted_runtime ata_found (Inr None) []) ''ata-of-wallet''
       = Inr None
   \<and> getTokenBalance (scripted_runtime ata_found (Inr None) []) mainnet_client ''wallet''
       = Inr 0
   \<and> getTokenBalance (scripted_runtime ata_found (Inr (Some (5 / 2))) []) mainnet_client
       ''wallet'' = Inr (5 / 2)"
  using getTokenBalance_never_throws [of "scripted_runtime ata_missing (Inr (Some 5)) []"
      mainnet_client "''wallet''"]
    getTokenBalance_never_throws [of "scripted_runtime ata_found (Inl (Error ''fetch failed'')) []"
      mainnet_client "''wallet''"]
    getTokenBalance_never_throws [of "scripted_runtime ata_found (Inr None) []"
      mainnet_client "''wallet''"]
  by (simp add: getTokenBalance_def getTokenBalance_try_def scripted_runtime_def
        printing_runtime_def ata_found_def ata_missing_def)

end
